theory Spec2Isabelle
  imports Main "HOL-Library.Sublist"
begin

section \<open>Strings, clock readings and message records\<close>

text \<open>
  A JavaScript string is a sequence of UTF-16 code units; a code unit is modelled as a
  natural number. \<open>js\<close> turns an ASCII literal of the source into that form.
\<close>

type_synonym jsstring = "nat list"

definition js :: "string \<Rightarrow> jsstring" where
  "js s = map of_char s"

text \<open>
  \<^verbatim>\<open>String.prototype.trim\<close> removes leading and trailing WhiteSpace and LineTerminator
  code points of ECMAScript: TAB, LF, VT, FF, CR, SP, NBSP, U+1680, U+2000 to U+200A,
  U+2028, U+2029, U+202F, U+205F, U+3000 and U+FEFF.
\<close>

definition isWhiteSpace :: "nat \<Rightarrow> bool" where
  "isWhiteSpace c \<longleftrightarrow>
     c \<in> set [9, 10, 11, 12, 13, 32, 160, 5760,
               8192, 8193, 8194, 8195, 8196, 8197, 8198, 8199, 8200, 8201, 8202,
               8232, 8233, 8239, 8287, 12288, 65279]"

definition trim :: "jsstring \<Rightarrow> jsstring" where
  "trim s = rev (dropWhile isWhiteSpace (rev (dropWhile isWhiteSpace s)))"

text \<open>
  Modelled from the spec: \<^verbatim>\<open>types.ts\<close> (the declarations of \<^verbatim>\<open>MessageRole\<close> and
  \<^verbatim>\<open>ChatMessageData\<close>) is not among the sources; the enum's two members and the four
  fields are the ones \<^verbatim>\<open>App.tsx\<close> uses (\<^verbatim>\<open>MessageRole.USER\<close>, \<^verbatim>\<open>MessageRole.AI\<close>;
  \<^verbatim>\<open>id\<close>, \<^verbatim>\<open>role\<close>, \<^verbatim>\<open>text\<close>, \<^verbatim>\<open>timestamp\<close>). The id is a \<^verbatim>\<open>Date.now()\<close> reading, an
  integer of milliseconds; the timestamp, a \<^verbatim>\<open>Date\<close>, is modelled by its millisecond value.
\<close>

datatype MessageRole = USER | AI

record ChatMessageData =
  msg_id :: int
  msg_role :: MessageRole
  msg_text :: jsstring
  msg_timestamp :: int

text \<open>
  \<^verbatim>\<open>handleSendMessage\<close> reads the clock four times, in this order: \<^verbatim>\<open>Date.now()\<close> for
  the user id, \<^verbatim>\<open>new Date()\<close> for the user timestamp, \<^verbatim>\<open>Date.now()\<close> for the id of the
  AI placeholder, \<^verbatim>\<open>new Date()\<close> for its timestamp. The readings are inputs of the model.
\<close>

record send_clock =
  now_user :: int
  date_user :: int
  now_ai :: int
  date_ai :: int

section \<open>The chat session collaborator\<close>

text \<open>
  A thrown value \<open>e\<close> is modelled by its \<^verbatim>\<open>e.message\<close>, absent (\<open>None\<close>) or a string.
  A chunk of the stream is modelled by its \<^verbatim>\<open>chunk.text\<close>, absent or a string.
  \<^verbatim>\<open>await chatSession.sendMessageStream({ message })\<close> either rejects, or yields a stream
  that produces finitely many chunks and then completes or throws.
\<close>

datatype js_error = JsError "jsstring option"

datatype stream_end = Completed | Throws js_error

datatype stream_result = Rejected js_error | Stream "jsstring option list" stream_end

type_synonym chat = "jsstring \<Rightarrow> stream_result"

section \<open>Application state and the effects of the handlers\<close>

record app_state =
  messages :: "ChatMessageData list"
  isLoading :: bool
  error :: "jsstring option"
  chatSession :: "chat option"
  activeAiMessageId :: "int option"

text \<open>
  The argument of a \<^verbatim>\<open>setMessages\<close> call: the functional updaters of \<^verbatim>\<open>handleSendMessage\<close>
  (append the two records; map over the records replacing the text, or the text and
  the role, of those whose id matches) and the plain list of \<^verbatim>\<open>handleNewChat\<close>.
\<close>

datatype updater =
    AppendPair ChatMessageData ChatMessageData
  | MapText int jsstring
  | MapTextRole int jsstring MessageRole
  | Replace "ChatMessageData list"

text \<open>
  What a handler does, in program order: calls of the state setters, the call of the
  streaming collaborator with its \<^verbatim>\<open>message\<close>, \<^verbatim>\<open>console.error\<close> and \<^verbatim>\<open>navigate\<close>.
\<close>

datatype effect =
    SetIsLoading bool
  | SetError "jsstring option"
  | SetActiveAiMessageId "int option"
  | SetMessages updater
  | SendMessageStream jsstring
  | ConsoleError
  | Navigate jsstring

text \<open>
  \<^verbatim>\<open>prevMessages.map(msg => msg.id === i ? { ...msg, text: t } : msg)\<close>: the update the
  spec calls \<open>replaceText\<close>.
\<close>

definition replaceText :: "int \<Rightarrow> jsstring \<Rightarrow> ChatMessageData list \<Rightarrow> ChatMessageData list" where
  "replaceText i t msgs = map (\<lambda>msg. if msg_id msg = i then msg\<lparr>msg_text := t\<rparr> else msg) msgs"

text \<open>\<^verbatim>\<open>prevMessages.map(msg => msg.id === i ? { ...msg, text: t, role: r } : msg)\<close>\<close>

definition replaceTextRole ::
  "int \<Rightarrow> jsstring \<Rightarrow> MessageRole \<Rightarrow> ChatMessageData list \<Rightarrow> ChatMessageData list" where
  "replaceTextRole i t r msgs =
     map (\<lambda>msg. if msg_id msg = i then msg\<lparr>msg_text := t, msg_role := r\<rparr> else msg) msgs"

fun apply_updater :: "updater \<Rightarrow> ChatMessageData list \<Rightarrow> ChatMessageData list" where
  "apply_updater (AppendPair u a) prev = prev @ [u, a]"
| "apply_updater (MapText i t) prev = replaceText i t prev"
| "apply_updater (MapTextRole i t r) prev = replaceTextRole i t r prev"
| "apply_updater (Replace ms) prev = ms"

fun apply_effect :: "app_state \<Rightarrow> effect \<Rightarrow> app_state" where
  "apply_effect s (SetIsLoading b) = s\<lparr>isLoading := b\<rparr>"
| "apply_effect s (SetError e) = s\<lparr>error := e\<rparr>"
| "apply_effect s (SetActiveAiMessageId a) = s\<lparr>activeAiMessageId := a\<rparr>"
| "apply_effect s (SetMessages u) = s\<lparr>messages := apply_updater u (messages s)\<rparr>"
| "apply_effect s (SendMessageStream m) = s"
| "apply_effect s ConsoleError = s"
| "apply_effect s (Navigate p) = s"

definition run :: "effect list \<Rightarrow> app_state \<Rightarrow> app_state" where
  "run es s = foldl apply_effect s es"

section \<open>handleSendMessage\<close>

text \<open>The guard of line 188: \<^verbatim>\<open>if (!prompt.trim() || isLoading || !chatSession) return;\<close>\<close>

definition rejected :: "jsstring \<Rightarrow> app_state \<Rightarrow> bool" where
  "rejected prompt s \<longleftrightarrow> trim prompt = [] \<or> isLoading s \<or> chatSession s = None"

definition accepted :: "jsstring \<Rightarrow> app_state \<Rightarrow> bool" where
  "accepted prompt s \<longleftrightarrow> trim prompt \<noteq> [] \<and> \<not> isLoading s \<and> chatSession s \<noteq> None"

definition userMessage :: "jsstring \<Rightarrow> send_clock \<Rightarrow> ChatMessageData" where
  "userMessage prompt clk =
     \<lparr>msg_id = now_user clk, msg_role = USER, msg_text = prompt, msg_timestamp = date_user clk\<rparr>"

definition newAiMessageId :: "send_clock \<Rightarrow> int" where
  "newAiMessageId clk = now_ai clk + 1"

definition aiPlaceholder :: "send_clock \<Rightarrow> ChatMessageData" where
  "aiPlaceholder clk =
     \<lparr>msg_id = newAiMessageId clk, msg_role = AI, msg_text = [], msg_timestamp = date_ai clk\<rparr>"

text \<open>Lines 190 to 211: everything from the guard to the \<^verbatim>\<open>try\<close>.\<close>

definition accept_effects :: "jsstring \<Rightarrow> send_clock \<Rightarrow> effect list" where
  "accept_effects prompt clk =
     [SetIsLoading True,
      SetActiveAiMessageId (Some (newAiMessageId clk)),
      SetMessages (AppendPair (userMessage prompt clk) (aiPlaceholder clk))]"

text \<open>\<^verbatim>\<open>if (chunk.text)\<close>: an absent text and the empty string are falsy.\<close>

fun truthy :: "jsstring option \<Rightarrow> bool" where
  "truthy None = False"
| "truthy (Some t) = (t \<noteq> [])"

fun chunk_text :: "jsstring option \<Rightarrow> jsstring" where
  "chunk_text None = []"
| "chunk_text (Some t) = t"

text \<open>
  The \<^verbatim>\<open>for await\<close> loop of lines 222 to 234, with \<^verbatim>\<open>accumulatedResponseText\<close> as the
  accumulator.
\<close>

fun stream_loop :: "int \<Rightarrow> jsstring \<Rightarrow> jsstring option list \<Rightarrow> effect list" where
  "stream_loop aid acc [] = []"
| "stream_loop aid acc (c # cs) =
     (if truthy c
      then SetMessages (MapText aid (acc @ chunk_text c)) # stream_loop aid (acc @ chunk_text c) cs
      else stream_loop aid acc cs)"

text \<open>
  Line 238: \<^verbatim>\<open>`Sorry, I encountered an error: ${e.message || 'Unknown API error'}`\<close>.
\<close>

fun errorMessage :: "js_error \<Rightarrow> jsstring" where
  "errorMessage (JsError m) =
     js ''Sorry, I encountered an error: '' @ (if truthy m then chunk_text m else js ''Unknown API error'')"

text \<open>The \<^verbatim>\<open>catch\<close> block, lines 235 to 246, and the \<^verbatim>\<open>finally\<close> block, lines 247 to 251.\<close>

definition catch_effects :: "int \<Rightarrow> js_error \<Rightarrow> effect list" where
  "catch_effects aid e =
     [ConsoleError,
      SetError (Some (errorMessage e)),
      SetMessages (MapTextRole aid (errorMessage e) AI)]"

definition finally_effects :: "effect list" where
  "finally_effects = [SetIsLoading False, SetActiveAiMessageId None]"

text \<open>The \<^verbatim>\<open>try\<close> block after the stream call has settled, with the \<^verbatim>\<open>catch\<close> it may reach.\<close>

fun stream_end_effects :: "int \<Rightarrow> stream_end \<Rightarrow> effect list" where
  "stream_end_effects aid Completed = []"
| "stream_end_effects aid (Throws e) = catch_effects aid e"

fun exchange_effects :: "int \<Rightarrow> stream_result \<Rightarrow> effect list" where
  "exchange_effects aid (Rejected e) = catch_effects aid e"
| "exchange_effects aid (Stream cs fin) =
     SetError None # stream_loop aid [] cs @ stream_end_effects aid fin"

text \<open>
  The whole handler. The guard reads \<open>isLoading\<close> and \<open>chatSession\<close> of the state the
  callback was created in; the updaters of \<^verbatim>\<open>setMessages\<close> act on the state current when
  they are applied.
\<close>

definition handleSendMessage_effects :: "jsstring \<Rightarrow> send_clock \<Rightarrow> app_state \<Rightarrow> effect list" where
  "handleSendMessage_effects prompt clk s =
     (if trim prompt = [] \<or> isLoading s \<or> chatSession s = None then []
      else case chatSession s of
        None \<Rightarrow> []
      | Some session \<Rightarrow>
          accept_effects prompt clk
          @ SendMessageStream prompt
          # exchange_effects (newAiMessageId clk) (session prompt)
          @ finally_effects)"

definition handleSendMessage :: "jsstring \<Rightarrow> send_clock \<Rightarrow> app_state \<Rightarrow> app_state" where
  "handleSendMessage prompt clk s = run (handleSendMessage_effects prompt clk s) s"

text \<open>
  The effects of an accepted send up to the point where the chunks \<open>cs\<close> of an opened
  stream have been processed: the prefix of the handler's effects at which the loop
  waits for the next chunk.
\<close>

definition opened_effects :: "jsstring \<Rightarrow> send_clock \<Rightarrow> effect list" where
  "opened_effects prompt clk = accept_effects prompt clk @ [SendMessageStream prompt, SetError None]"

definition streaming_effects :: "jsstring \<Rightarrow> send_clock \<Rightarrow> jsstring option list \<Rightarrow> effect list" where
  "streaming_effects prompt clk cs =
     opened_effects prompt clk @ stream_loop (newAiMessageId clk) [] cs"

text \<open>The concatenation, in arrival order, of the non-empty fragments among \<open>cs\<close>.\<close>

definition fragments :: "jsstring option list \<Rightarrow> jsstring" where
  "fragments cs = concat (map chunk_text (filter truthy cs))"

text \<open>
  The effects that follow once the first \<open>k\<close> chunks of an opened stream have been
  processed: the rest of the loop, with the accumulator reached so far, the \<^verbatim>\<open>catch\<close>
  block if the stream throws, and the \<^verbatim>\<open>finally\<close> block.
\<close>

definition remaining_effects ::
  "send_clock \<Rightarrow> jsstring option list \<Rightarrow> stream_end \<Rightarrow> nat \<Rightarrow> effect list" where
  "remaining_effects clk cs fin k =
     stream_loop (newAiMessageId clk) (fragments (take k cs)) (drop k cs)
     @ stream_end_effects (newAiMessageId clk) fin @ finally_effects"

definition ids :: "ChatMessageData list \<Rightarrow> int list" where
  "ids msgs = map msg_id msgs"

section \<open>handleNewChat and the caller in ChatInput\<close>

text \<open>
  \<^verbatim>\<open>handleNewChat\<close>, lines 278 to 288: navigate home and replace the transcript by one
  welcome record, whose id and timestamp are clock readings.
\<close>

definition welcomeMessage :: "int \<Rightarrow> int \<Rightarrow> ChatMessageData" where
  "welcomeMessage now date =
     \<lparr>msg_id = now, msg_role = AI,
      msg_text = js ''Hello, I am ChatAi'' @ [10] @ js ''How can I help you?'',
      msg_timestamp = date\<rparr>"

definition handleNewChat_effects :: "int \<Rightarrow> int \<Rightarrow> effect list" where
  "handleNewChat_effects now date =
     [Navigate (js ''/''), SetMessages (Replace [welcomeMessage now date])]"

definition handleNewChat :: "int \<Rightarrow> int \<Rightarrow> app_state \<Rightarrow> app_state" where
  "handleNewChat now date s = run (handleNewChat_effects now date) s"

text \<open>
  \<^verbatim>\<open>handleSend\<close> of \<^verbatim>\<open>ChatInput.tsx\<close>, lines 65 to 70, with \<^verbatim>\<open>onSendMessage\<close> bound to
  \<^verbatim>\<open>handleSendMessage\<close> and the \<^verbatim>\<open>isLoading\<close> prop bound to the application's state, as
  \<^verbatim>\<open>App.tsx\<close> line 462 binds them. The input box's own \<^verbatim>\<open>setMessage('')\<close> is local to
  the component and left out.
\<close>

definition handleSend_effects :: "jsstring \<Rightarrow> send_clock \<Rightarrow> app_state \<Rightarrow> effect list" where
  "handleSend_effects message clk s =
     (if trim message \<noteq> [] \<and> \<not> isLoading s
      then handleSendMessage_effects (trim message) clk s
      else [])"

section \<open>Example inputs\<close>

text \<open>A session that streams \<^verbatim>\<open>"Hi"\<close>, \<^verbatim>\<open>""\<close>, \<^verbatim>\<open>" there"\<close>, \<^verbatim>\<open>"!"\<close> and completes.\<close>

definition greeting_session :: chat where
  "greeting_session = (\<lambda>m. Stream [Some (js ''Hi''), Some [], Some (js '' there''), Some (js ''!'')] Completed)"

text \<open>A session whose stream yields \<^verbatim>\<open>"Hi"\<close> and then fails with \<^verbatim>\<open>"timeout"\<close>.\<close>

definition failing_session :: chat where
  "failing_session = (\<lambda>m. Stream [Some (js ''Hi'')] (Throws (JsError (Some (js ''timeout'')))))"

text \<open>A session whose stream call is rejected with an error that has no message.\<close>

definition offline_session :: chat where
  "offline_session = (\<lambda>m. Rejected (JsError None))"

text \<open>A session that streams its message back.\<close>

definition echo_session :: chat where
  "echo_session = (\<lambda>m. Stream [Some m] Completed)"

text \<open>A session that streams its message back and then fails, the message as description.\<close>

definition moody_session :: chat where
  "moody_session = (\<lambda>m. Stream [Some m] (Throws (JsError (Some m))))"

text \<open>The state after start-up at clock reading 1000: the welcome record, idle, no error.\<close>

definition ready_state :: "chat \<Rightarrow> app_state" where
  "ready_state session =
     \<lparr>messages = [welcomeMessage 1000 1000], isLoading = False, error = None,
      chatSession = Some session, activeAiMessageId = None\<rparr>"

definition clock_at :: "int \<Rightarrow> send_clock" where
  "clock_at t = \<lparr>now_user = t, date_user = t, now_ai = t, date_ai = t\<rparr>"

section \<open>Running effects\<close>

lemma run_append: "run (xs @ ys) s = run ys (run xs s)"
  by (simp add: run_def)

lemma run_Nil: "run [] s = s"
  by (simp add: run_def)

lemma run_Cons: "run (e # es) s = run es (apply_effect s e)"
  by (simp add: run_def)

lemma run_accept:
  "run (accept_effects prompt clk) s =
     s\<lparr>isLoading := True, activeAiMessageId := Some (newAiMessageId clk),
       messages := messages s @ [userMessage prompt clk, aiPlaceholder clk]\<rparr>"
  by (simp add: accept_effects_def run_Cons run_Nil)

lemma run_opened:
  "run (opened_effects prompt clk) s =
     s\<lparr>isLoading := True, activeAiMessageId := Some (newAiMessageId clk),
       messages := messages s @ [userMessage prompt clk, aiPlaceholder clk], error := None\<rparr>"
  by (simp add: opened_effects_def run_append run_accept run_Cons run_Nil)

lemma run_catch:
  "run (catch_effects aid e) s =
     s\<lparr>error := Some (errorMessage e),
       messages := replaceTextRole aid (errorMessage e) AI (messages s)\<rparr>"
  by (simp add: catch_effects_def run_Cons run_Nil)

lemma run_finally:
  "run finally_effects s = s\<lparr>isLoading := False, activeAiMessageId := None\<rparr>"
  by (simp add: finally_effects_def run_Cons run_Nil)

section \<open>The two updaters\<close>

lemma replaceText_twice: "replaceText i t (replaceText i t' ms) = replaceText i t ms"
  by (induction ms) (simp_all add: replaceText_def)

lemma length_replaceText: "length (replaceText i t ms) = length ms"
  by (simp add: replaceText_def)

lemma length_replaceTextRole: "length (replaceTextRole i t r ms) = length ms"
  by (simp add: replaceTextRole_def)

lemma ids_replaceText: "ids (replaceText i t ms) = ids ms"
  by (induction ms) (simp_all add: replaceText_def ids_def)

lemma ids_replaceTextRole: "ids (replaceTextRole i t r ms) = ids ms"
  by (induction ms) (simp_all add: replaceTextRole_def ids_def)

lemma replaceText_absent: "i \<notin> set (ids ms) \<Longrightarrow> replaceText i t ms = ms"
  by (induction ms) (simp_all add: replaceText_def ids_def)

lemma replaceTextRole_absent: "i \<notin> set (ids ms) \<Longrightarrow> replaceTextRole i t r ms = ms"
  by (induction ms) (simp_all add: replaceTextRole_def ids_def)

lemma replaceText_append: "replaceText i t (xs @ ys) = replaceText i t xs @ replaceText i t ys"
  by (simp add: replaceText_def)

lemma replaceTextRole_append:
  "replaceTextRole i t r (xs @ ys) = replaceTextRole i t r xs @ replaceTextRole i t r ys"
  by (simp add: replaceTextRole_def)

section \<open>The streaming loop\<close>

lemma fragments_Nil: "fragments [] = []"
  by (simp add: fragments_def)

lemma fragments_Cons:
  "fragments (c # cs) = (if truthy c then chunk_text c @ fragments cs else fragments cs)"
  by (simp add: fragments_def)

lemma fragments_append: "fragments (xs @ ys) = fragments xs @ fragments ys"
  by (simp add: fragments_def)

lemma fragments_no_truthy: "\<not> (\<exists>c\<in>set cs. truthy c) \<Longrightarrow> fragments cs = []"
  by (induction cs) (simp_all add: fragments_Nil fragments_Cons)

lemma fragments_take_prefix:
  assumes "j \<le> k"
  shows "prefix (fragments (take j cs)) (fragments (take k cs))"
proof -
  from assms have "take k cs = take j cs @ take (k - j) (drop j cs)"
    by (metis le_add_diff_inverse take_add)
  then show ?thesis
    by (metis fragments_append prefixI)
qed

lemma stream_loop_append:
  "stream_loop aid acc (xs @ ys) =
     stream_loop aid acc xs @ stream_loop aid (acc @ fragments xs) ys"
  by (induction xs arbitrary: acc) (simp_all add: fragments_Nil fragments_Cons)

lemma stream_loop_only_SetMessages:
  "e \<in> set (stream_loop aid acc cs) \<Longrightarrow> \<exists>t. e = SetMessages (MapText aid t)"
  by (induction cs arbitrary: acc) (auto split: if_splits)

text \<open>
  The loop as one update: once a non-empty fragment has arrived, the records whose id is
  \<open>aid\<close> carry the accumulator; before that, nothing has changed.
\<close>

lemma run_stream_loop:
  "run (stream_loop aid acc cs) s =
     (if \<exists>c\<in>set cs. truthy c
      then s\<lparr>messages := replaceText aid (acc @ fragments cs) (messages s)\<rparr>
      else s)"
proof (induction cs arbitrary: acc s)
  case Nil
  show ?case by (simp add: run_Nil)
next
  case (Cons c cs)
  show ?case
  proof (cases "truthy c")
    case True
    then show ?thesis
      by (simp add: run_Cons Cons.IH fragments_Cons fragments_def replaceText_twice)
  next
    case False
    then show ?thesis by (simp add: Cons.IH fragments_Cons)
  qed
qed

lemma streaming_falsy_step:
  "k < length cs \<Longrightarrow> \<not> truthy (cs ! k) \<Longrightarrow>
   streaming_effects prompt clk (take (Suc k) cs) = streaming_effects prompt clk (take k cs)"
  by (simp add: streaming_effects_def take_Suc_conv_app_nth stream_loop_append)

lemma length_streaming:
  "length (messages (run (streaming_effects prompt clk cs) s)) = length (messages s) + 2"
  by (simp add: streaming_effects_def run_append run_opened run_stream_loop length_replaceText)

lemma placeholder_text_streaming:
  "msg_text (messages (run (streaming_effects prompt clk cs) s) ! Suc (length (messages s)))
     = fragments cs"
  by (simp add: streaming_effects_def run_append run_opened run_stream_loop replaceText_append
      nth_append replaceText_def aiPlaceholder_def fragments_no_truthy length_replaceText)

lemma placeholder_id_streaming:
  "msg_id (messages (run (streaming_effects prompt clk cs) s) ! Suc (length (messages s)))
     = newAiMessageId clk"
  by (simp add: streaming_effects_def run_append run_opened run_stream_loop replaceText_append
      nth_append replaceText_def aiPlaceholder_def length_replaceText)

section \<open>The shape of the handler's effects\<close>

lemma accepted_not_rejected: "accepted prompt s \<longleftrightarrow> \<not> rejected prompt s"
  by (simp add: accepted_def rejected_def)

lemma rejected_no_effects:
  "rejected prompt s \<Longrightarrow> handleSendMessage_effects prompt clk s = []"
  by (simp add: rejected_def handleSendMessage_effects_def)

lemma accepted_session: "accepted prompt s \<Longrightarrow> \<exists>session. chatSession s = Some session"
  by (simp add: accepted_def)

lemma accepted_effects:
  "accepted prompt s \<Longrightarrow> chatSession s = Some session \<Longrightarrow>
   handleSendMessage_effects prompt clk s =
     accept_effects prompt clk @ SendMessageStream prompt
       # exchange_effects (newAiMessageId clk) (session prompt) @ finally_effects"
  by (simp add: accepted_def handleSendMessage_effects_def)

lemma accepted_streaming_prefix:
  assumes "accepted prompt s" "chatSession s = Some session" "session prompt = Stream cs fin"
  shows "handleSendMessage_effects prompt clk s =
           streaming_effects prompt clk (take k cs) @ remaining_effects clk cs fin k"
proof -
  have "stream_loop (newAiMessageId clk) [] cs =
        stream_loop (newAiMessageId clk) [] (take k cs)
        @ stream_loop (newAiMessageId clk) (fragments (take k cs)) (drop k cs)"
    using stream_loop_append [of "newAiMessageId clk" "[]" "take k cs" "drop k cs"] by simp
  then show ?thesis
    using assms
    by (simp add: accepted_effects streaming_effects_def opened_effects_def remaining_effects_def)
qed

lemma completed_exchange:
  assumes "accepted prompt s" "chatSession s = Some session" "session prompt = Stream cs Completed"
  shows "handleSendMessage prompt clk s
           = run finally_effects (run (streaming_effects prompt clk cs) s)"
  using accepted_streaming_prefix [OF assms, of clk "length cs"]
  by (simp add: handleSendMessage_def remaining_effects_def run_append)

lemma exchange_no_cleanup:
  "SetIsLoading b \<notin> set (exchange_effects aid r)"
  "SetActiveAiMessageId x \<notin> set (exchange_effects aid r)"
  by (cases r; cases "case r of Stream cs fin \<Rightarrow> fin | _ \<Rightarrow> Completed";
      auto simp add: catch_effects_def dest: stream_loop_only_SetMessages)+

lemma length_run_exchange:
  "length (messages (run (exchange_effects aid r) s)) = length (messages s)"
proof (cases r)
  case (Rejected e)
  then show ?thesis by (simp add: run_catch length_replaceTextRole)
next
  case (Stream cs fin)
  then show ?thesis
    by (cases fin) (simp_all add: run_Cons run_append run_stream_loop run_catch run_Nil
        length_replaceText length_replaceTextRole)
qed

lemma length_handleSendMessage:
  "accepted prompt s \<Longrightarrow> chatSession s = Some session \<Longrightarrow>
   length (messages (handleSendMessage prompt clk s)) = length (messages s) + 2"
  by (simp add: handleSendMessage_def accepted_effects run_append run_Cons run_finally
      length_run_exchange run_accept)

lemma stream_loop_no_call: "SendMessageStream m \<notin> set (stream_loop aid acc cs)"
  by (auto dest: stream_loop_only_SetMessages)

lemma exchange_no_call: "SendMessageStream m \<notin> set (exchange_effects aid r)"
  by (cases r; cases "case r of Stream cs fin \<Rightarrow> fin | _ \<Rightarrow> Completed";
      auto simp add: catch_effects_def dest: stream_loop_only_SetMessages)

lemma stream_call_argument:
  assumes "accepted prompt s"
  shows "SendMessageStream m \<in> set (handleSendMessage_effects prompt clk s) \<longleftrightarrow> m = prompt"
proof -
  obtain session where ss: "chatSession s = Some session"
    using assms accepted_session by blast
  show ?thesis
    using accepted_effects [OF assms ss, of clk]
    by (auto simp add: accept_effects_def finally_effects_def exchange_no_call)
qed

lemma stream_call_count:
  assumes "accepted prompt s"
  shows "count_list (handleSendMessage_effects prompt clk s) (SendMessageStream prompt) = 1"
proof -
  obtain session where ss: "chatSession s = Some session"
    using assms accepted_session by blast
  have "count_list (exchange_effects (newAiMessageId clk) (session prompt))
          (SendMessageStream prompt) = 0"
    by (simp add: count_list_0_iff exchange_no_call)
  then show ?thesis
    using accepted_effects [OF assms ss, of clk]
    by (simp add: accept_effects_def finally_effects_def)
qed

lemma error_run_stream_loop: "error (run (stream_loop aid acc cs) s) = error s"
  by (simp add: run_stream_loop)

lemma error_streaming: "error (run (streaming_effects prompt clk cs) s) = None"
  by (simp add: streaming_effects_def run_append run_opened error_run_stream_loop)

lemma ids_run_exchange: "ids (messages (run (exchange_effects aid r) s)) = ids (messages s)"
proof (cases r)
  case (Rejected e)
  then show ?thesis by (simp add: run_catch ids_replaceTextRole)
next
  case (Stream cs fin)
  then show ?thesis
    by (cases fin) (simp_all add: run_Cons run_append run_stream_loop run_catch run_Nil
        ids_replaceText ids_replaceTextRole)
qed

lemma ids_handleSendMessage:
  assumes "accepted prompt s"
  shows "ids (messages (handleSendMessage prompt clk s))
     = ids (messages s) @ [now_user clk, newAiMessageId clk]"
proof -
  obtain session where ss: "chatSession s = Some session"
    using assms accepted_session by blast
  show ?thesis
    by (simp add: handleSendMessage_def accepted_effects [OF assms ss] run_append run_Cons
        run_finally ids_run_exchange run_accept)
      (simp add: ids_def userMessage_def aiPlaceholder_def)
qed

section \<open>The transcript after a reset\<close>

lemma messages_handleNewChat: "messages (handleNewChat now date s) = [welcomeMessage now date]"
  by (simp add: handleNewChat_def handleNewChat_effects_def run_Cons run_Nil)

lemma messages_remaining_effects:
  assumes "newAiMessageId clk \<notin> set (ids (messages s))"
  shows "messages (run (remaining_effects clk cs fin k) s) = messages s"
  using assms
  by (cases fin)
    (simp_all add: remaining_effects_def run_append run_stream_loop run_catch run_finally run_Nil
      replaceText_absent replaceTextRole_absent)

lemma length_remaining_effects:
  "length (messages (run (remaining_effects clk cs fin k) s)) = length (messages s)"
  by (cases fin)
    (simp_all add: remaining_effects_def run_append run_stream_loop run_catch run_finally run_Nil
      length_replaceText length_replaceTextRole)

section \<open>Trimming\<close>

lemma dropWhile_id_hd: "xs \<noteq> [] \<Longrightarrow> \<not> P (hd xs) \<Longrightarrow> dropWhile P xs = xs"
  by (cases xs) simp_all

lemma last_dropWhile_nonempty: "dropWhile P xs \<noteq> [] \<Longrightarrow> last (dropWhile P xs) = last xs"
  by (induction xs) (auto split: if_splits)

lemma trim_fixed:
  assumes "xs \<noteq> []" "\<not> isWhiteSpace (hd xs)" "\<not> isWhiteSpace (last xs)"
  shows "trim xs = xs"
proof -
  have 1: "dropWhile isWhiteSpace xs = xs"
    using assms by (simp add: dropWhile_id_hd)
  have "hd (rev xs) = last xs"
    using assms(1) by (simp add: hd_rev)
  then have 2: "dropWhile isWhiteSpace (rev xs) = rev xs"
    using assms by (simp add: dropWhile_id_hd)
  show ?thesis
    by (simp add: trim_def 1 2)
qed

lemma trim_ends:
  assumes "trim s \<noteq> []"
  shows "\<not> isWhiteSpace (hd (trim s)) \<and> \<not> isWhiteSpace (last (trim s))"
proof -
  define x where "x = dropWhile isWhiteSpace s"
  define y where "y = dropWhile isWhiteSpace (rev x)"
  have t: "trim s = rev y"
    by (simp add: trim_def x_def y_def)
  with assms have y: "y \<noteq> []" by simp
  then have x: "x \<noteq> []" by (auto simp add: y_def)
  have "\<not> isWhiteSpace (hd y)"
    using y unfolding y_def by (rule hd_dropWhile)
  then have l: "\<not> isWhiteSpace (last (rev y))"
    using y by (simp add: last_rev)
  have "last y = last (rev x)"
    using y unfolding y_def by (rule last_dropWhile_nonempty)
  also have "\<dots> = hd x"
    using x by (simp add: last_rev)
  finally have "hd (rev y) = hd x"
    using y by (simp add: hd_rev)
  moreover have "\<not> isWhiteSpace (hd x)"
    using x unfolding x_def by (rule hd_dropWhile)
  ultimately show ?thesis
    using l t by simp
qed

lemma trim_idem: "trim (trim s) = trim s"
proof (cases "trim s = []")
  case True
  have "trim [] = []" by (simp add: trim_def)
  with True show ?thesis by simp
next
  case False
  then show ?thesis
    using trim_ends [OF False] by (simp add: trim_fixed)
qed

section \<open>What holds when the placeholder's id is fresh\<close>

text \<open>
  The updaters match records by id. When the id of the placeholder is the id of no
  other record, they touch the placeholder alone, and when every clock reading is
  later than all earlier ones the ids stay distinct.
\<close>

lemma take_run_exchange:
  assumes "aid \<notin> set (ids pre)" "messages s = pre @ post"
  shows "take (length pre) (messages (run (exchange_effects aid r) s)) = pre"
proof (cases r)
  case (Rejected e)
  then show ?thesis
    using assms by (simp add: run_catch replaceTextRole_append replaceTextRole_absent)
next
  case (Stream cs fin)
  then show ?thesis
    using assms
    by (cases fin) (simp_all add: run_Cons run_append run_stream_loop run_catch run_Nil
        replaceText_append replaceTextRole_append replaceText_absent replaceTextRole_absent
        ids_replaceText)
qed

lemma frame_when_id_fresh:
  assumes "accepted prompt s" "newAiMessageId clk \<notin> set (ids (messages s))"
    "now_user clk \<noteq> newAiMessageId clk"
  shows "take (Suc (length (messages s))) (messages (handleSendMessage prompt clk s))
           = messages s @ [userMessage prompt clk]"
proof -
  obtain session where ss: "chatSession s = Some session"
    using assms(1) accepted_session by blast
  define s1 where "s1 = apply_effect (run (accept_effects prompt clk) s) (SendMessageStream prompt)"
  have m: "messages s1 = (messages s @ [userMessage prompt clk]) @ [aiPlaceholder clk]"
    by (simp add: s1_def run_accept)
  have f: "newAiMessageId clk \<notin> set (ids (messages s @ [userMessage prompt clk]))"
    using assms(2,3) by (simp add: ids_def userMessage_def)
  have "take (length (messages s @ [userMessage prompt clk]))
          (messages (run (exchange_effects (newAiMessageId clk) (session prompt)) s1))
        = messages s @ [userMessage prompt clk]"
    using f m by (rule take_run_exchange)
  then show ?thesis
    by (simp add: handleSendMessage_def accepted_effects [OF assms(1) ss] run_append run_Cons
        run_finally s1_def)
qed

lemma ids_distinct_when_clock_advances:
  assumes "accepted prompt s" "distinct (ids (messages s))"
    "\<forall>i\<in>set (ids (messages s)). i < now_user clk" "now_user clk \<le> now_ai clk"
  shows "distinct (ids (messages (handleSendMessage prompt clk s)))"
  using assms by (auto simp add: ids_handleSendMessage newAiMessageId_def)

text \<open>
  Whatever the ids, a failed exchange leaves the error string in the placeholder, with
  role AI, and the session in place for the next send.
\<close>

lemma failed_exchange_placeholder:
  assumes "accepted prompt s" "chatSession s = Some session"
    "session prompt = Rejected e \<or> session prompt = Stream cs (Throws e)"
  shows "msg_text (messages (handleSendMessage prompt clk s) ! Suc (length (messages s)))
           = errorMessage e"
    and "msg_role (messages (handleSendMessage prompt clk s) ! Suc (length (messages s))) = AI"
    and "chatSession (handleSendMessage prompt clk s) = chatSession s"
  using assms(3)
  by (auto simp add: handleSendMessage_def accepted_effects [OF assms(1,2)] run_append run_Cons
      run_finally run_accept run_catch run_stream_loop run_Nil replaceTextRole_def replaceText_def
      nth_append aiPlaceholder_def)

section \<open>Evaluating the example inputs\<close>

lemma trim_examples:
  "trim (js ''Hello'') = js ''Hello''"
  "trim (js ''X'') = js ''X''"
  "trim (js ''  '') = []"
  "trim (js '' hi '') = js ''hi''"
  by (simp_all add: trim_def js_def isWhiteSpace_def)

lemma trim_examples_nonempty:
  "trim (js ''Hello'') \<noteq> []"
  "trim (js ''X'') \<noteq> []"
  "trim (js ''one'') \<noteq> []"
  "trim (js ''two'') \<noteq> []"
  "trim (js '' hi '') \<noteq> []"
  by (simp_all add: trim_def js_def isWhiteSpace_def)

lemmas eval_defs = handleSendMessage_def handleSendMessage_effects_def ready_state_def
  clock_at_def accept_effects_def userMessage_def aiPlaceholder_def newAiMessageId_def
  catch_effects_def finally_effects_def run_Cons run_Nil run_append welcomeMessage_def
  replaceText_def replaceTextRole_def ids_def

lemma accepted_ready:
  "trim prompt \<noteq> [] \<Longrightarrow> accepted prompt (ready_state session)"
  by (simp add: accepted_def ready_state_def)

section \<open>Rejected sends\<close>

text \<open>
  Claim C1. A call of \<open>handleSendMessage\<close> with a prompt that is empty after trimming,
  or while \<open>isLoading\<close> is true, or without a chat session, does nothing: it calls no
  setter and no collaborator, so the state (transcript, \<open>isLoading\<close>,
  \<open>activeAiMessageId\<close>, error) is the one before the call. The handler has effects
  exactly when all three preconditions hold.
\<close>

theorem rejected_send_is_noop:
  "(trim prompt = [] \<or> isLoading s \<or> chatSession s = None \<longrightarrow>
      handleSendMessage_effects prompt clk s = [] \<and> handleSendMessage prompt clk s = s)
   \<and> (handleSendMessage_effects prompt clk s \<noteq> [] \<longleftrightarrow>
        trim prompt \<noteq> [] \<and> \<not> isLoading s \<and> chatSession s \<noteq> None)"
  by (auto simp add: handleSendMessage_effects_def handleSendMessage_def run_Nil accept_effects_def)

theorem rejected_send_is_noop_witness:
  "handleSendMessage (js ''  '') (clock_at 2000) (ready_state greeting_session)
     = ready_state greeting_session
   \<and> handleSendMessage (js ''X'') (clock_at 2000) ((ready_state greeting_session)\<lparr>isLoading := True\<rparr>)
     = (ready_state greeting_session)\<lparr>isLoading := True\<rparr>
   \<and> handleSendMessage (js ''X'') (clock_at 2000) ((ready_state greeting_session)\<lparr>chatSession := None\<rparr>)
     = (ready_state greeting_session)\<lparr>chatSession := None\<rparr>
   \<and> handleSendMessage_effects (js ''X'') (clock_at 2000) (ready_state greeting_session) \<noteq> []"
proof -
  have 1: "trim (js ''  '') = []" "trim (js ''X'') \<noteq> []"
    by (simp_all add: trim_examples(3) trim_examples_nonempty)
  show ?thesis
    using 1
      rejected_send_is_noop [of "js ''  ''" "ready_state greeting_session" "clock_at 2000"]
      rejected_send_is_noop [of "js ''X''" "(ready_state greeting_session)\<lparr>isLoading := True\<rparr>"
        "clock_at 2000"]
      rejected_send_is_noop [of "js ''X''" "(ready_state greeting_session)\<lparr>chatSession := None\<rparr>"
        "clock_at 2000"]
      rejected_send_is_noop [of "js ''X''" "ready_state greeting_session" "clock_at 2000"]
    by (simp add: ready_state_def)
qed

section \<open>Accepted sends\<close>

text \<open>
  Claim C3. An accepted send first appends, at the tail and in this order, a record with
  role USER carrying the prompt and a record with role AI carrying the empty string;
  the transcript is two records longer from then on: before the stream call, after
  it has opened and before any fragment, and when the exchange has settled.
\<close>

theorem accepted_send_appends_two:
  "accepted prompt s \<Longrightarrow>
   prefix (accept_effects prompt clk) (handleSendMessage_effects prompt clk s)
   \<and> messages (run (accept_effects prompt clk) s)
       = messages s @ [userMessage prompt clk, aiPlaceholder clk]
   \<and> msg_role (userMessage prompt clk) = USER \<and> msg_text (userMessage prompt clk) = prompt
   \<and> msg_role (aiPlaceholder clk) = AI \<and> msg_text (aiPlaceholder clk) = []
   \<and> length (messages (run (accept_effects prompt clk) s)) = length (messages s) + 2
   \<and> messages (run (opened_effects prompt clk) s) = messages (run (accept_effects prompt clk) s)
   \<and> length (messages (handleSendMessage prompt clk s)) = length (messages s) + 2"
proof -
  assume a: "accepted prompt s"
  then obtain session where ss: "chatSession s = Some session"
    using accepted_session by blast
  have 1: "prefix (accept_effects prompt clk) (handleSendMessage_effects prompt clk s)"
    using accepted_effects [OF a ss] by (simp add: prefix_def)
  have 2: "length (messages (handleSendMessage prompt clk s)) = length (messages s) + 2"
    using a ss by (simp add: length_handleSendMessage)
  show ?thesis
    using 1 2
    by (simp add: run_accept run_opened userMessage_def aiPlaceholder_def)
qed

theorem accepted_send_appends_two_witness:
  "messages (run (accept_effects (js ''Hello'') (clock_at 2000)) (ready_state greeting_session))
     = [welcomeMessage 1000 1000,
        \<lparr>msg_id = 2000, msg_role = USER, msg_text = js ''Hello'', msg_timestamp = 2000\<rparr>,
        \<lparr>msg_id = 2001, msg_role = AI, msg_text = [], msg_timestamp = 2000\<rparr>]
   \<and> length (messages (handleSendMessage (js ''Hello'') (clock_at 2000) (ready_state greeting_session)))
     = 3"
proof -
  have a: "accepted (js ''Hello'') (ready_state greeting_session)"
    by (simp add: accepted_ready trim_examples_nonempty)
  show ?thesis
    using accepted_send_appends_two [OF a, of "clock_at 2000"]
    by (simp add: ready_state_def userMessage_def aiPlaceholder_def newAiMessageId_def clock_at_def)
qed

text \<open>
  Claim C2. In an accepted send whose stream opened and yields the fragments \<open>cs\<close>, after
  the first \<open>k\<close> fragments the placeholder (the record after the user record, with the
  id of the AI message) carries the concatenation, in arrival order, of the non-empty
  ones among them. The text after \<open>j \<le> k\<close> fragments is a prefix of the text after \<open>k\<close>,
  which is a prefix of the text after all of them, and an empty or absent fragment
  leaves the whole state as it is. When the stream completes, the placeholder ends
  with the concatenation of all the non-empty fragments.
\<close>

theorem streamed_text_is_concatenation:
  "accepted prompt s \<Longrightarrow> chatSession s = Some session \<Longrightarrow> session prompt = Stream cs fin \<Longrightarrow>
   k \<le> length cs \<Longrightarrow>
   prefix (streaming_effects prompt clk (take k cs)) (handleSendMessage_effects prompt clk s)
   \<and> length (messages (run (streaming_effects prompt clk (take k cs)) s)) = length (messages s) + 2
   \<and> msg_id (messages (run (streaming_effects prompt clk (take k cs)) s) ! Suc (length (messages s)))
       = newAiMessageId clk
   \<and> msg_text (messages (run (streaming_effects prompt clk (take k cs)) s) ! Suc (length (messages s)))
       = fragments (take k cs)
   \<and> (\<forall>j\<le>k. prefix (fragments (take j cs)) (fragments (take k cs)))
   \<and> prefix (fragments (take k cs)) (fragments cs)
   \<and> (k < length cs \<and> \<not> truthy (cs ! k) \<longrightarrow>
        run (streaming_effects prompt clk (take (Suc k) cs)) s
          = run (streaming_effects prompt clk (take k cs)) s)
   \<and> (fin = Completed \<longrightarrow>
        msg_text (messages (handleSendMessage prompt clk s) ! Suc (length (messages s)))
          = fragments cs)"
proof -
  assume a: "accepted prompt s" "chatSession s = Some session" "session prompt = Stream cs fin"
    and k: "k \<le> length cs"
  have 1: "prefix (streaming_effects prompt clk (take k cs)) (handleSendMessage_effects prompt clk s)"
    using accepted_streaming_prefix [OF a, of clk k] by (simp add: prefix_def)
  have 2: "\<forall>j\<le>k. prefix (fragments (take j cs)) (fragments (take k cs))"
    by (simp add: fragments_take_prefix)
  have 3: "prefix (fragments (take k cs)) (fragments cs)"
    using fragments_take_prefix [OF k, of cs] by simp
  have 4: "k < length cs \<and> \<not> truthy (cs ! k) \<longrightarrow>
        run (streaming_effects prompt clk (take (Suc k) cs)) s
          = run (streaming_effects prompt clk (take k cs)) s"
    by (simp add: streaming_falsy_step)
  have 5: "fin = Completed \<longrightarrow>
        msg_text (messages (handleSendMessage prompt clk s) ! Suc (length (messages s)))
          = fragments cs"
    using a completed_exchange [of prompt s session cs clk]
    by (simp add: run_finally placeholder_text_streaming)
  show ?thesis
    using 1 2 3 4 5
    by (simp add: length_streaming placeholder_text_streaming placeholder_id_streaming)
qed

theorem streamed_text_is_concatenation_witness:
  "msg_text (messages (handleSendMessage (js ''Hello'') (clock_at 2000)
       (ready_state greeting_session)) ! 2) = js ''Hi there!''
   \<and> msg_text (messages (run (streaming_effects (js ''Hello'') (clock_at 2000)
       (take 3 [Some (js ''Hi''), Some [], Some (js '' there''), Some (js ''!'')]))
       (ready_state greeting_session)) ! 2) = js ''Hi there''
   \<and> run (streaming_effects (js ''Hello'') (clock_at 2000)
       (take 2 [Some (js ''Hi''), Some [], Some (js '' there''), Some (js ''!'')]))
       (ready_state greeting_session)
     = run (streaming_effects (js ''Hello'') (clock_at 2000)
       (take 1 [Some (js ''Hi''), Some [], Some (js '' there''), Some (js ''!'')]))
       (ready_state greeting_session)"
proof -
  let ?cs = "[Some (js ''Hi''), Some [], Some (js '' there''), Some (js ''!'')]"
  have a: "accepted (js ''Hello'') (ready_state greeting_session)"
    by (simp add: accepted_ready trim_examples_nonempty)
  have b: "chatSession (ready_state greeting_session) = Some greeting_session"
    by (simp add: ready_state_def)
  have c: "greeting_session (js ''Hello'') = Stream ?cs Completed"
    by (simp add: greeting_session_def)
  have l: "length (messages (ready_state greeting_session)) = 1"
    by (simp add: ready_state_def)
  have f: "fragments (take 3 ?cs) = js ''Hi there''"
    by (simp add: fragments_def js_def)
  have "msg_text (messages (run (streaming_effects (js ''Hello'') (clock_at 2000) (take 3 ?cs))
       (ready_state greeting_session)) ! 2) = js ''Hi there''"
    using streamed_text_is_concatenation [OF a b c, of 3 "clock_at 2000"] l f
    by (simp add: numeral_2_eq_2)
  moreover have "run (streaming_effects (js ''Hello'') (clock_at 2000) (take 2 ?cs))
       (ready_state greeting_session)
     = run (streaming_effects (js ''Hello'') (clock_at 2000) (take 1 ?cs))
       (ready_state greeting_session)"
    using streamed_text_is_concatenation [OF a b c, of 1 "clock_at 2000"]
    by (simp add: numeral_2_eq_2)
  moreover have "msg_text (messages (handleSendMessage (js ''Hello'') (clock_at 2000)
       (ready_state greeting_session)) ! 2) = js ''Hi there!''"
    using streamed_text_is_concatenation [OF a b c, of 4 "clock_at 2000"] l
    by (simp add: numeral_2_eq_2 fragments_def js_def)
  ultimately show ?thesis by simp
qed

section \<open>Cleanup\<close>

text \<open>
  Claim C4. Whatever the stream call of an accepted send does (it is rejected, or it
  opens and yields any fragments and then completes or throws), the state after the
  exchange has \<open>isLoading = False\<close> and \<open>activeAiMessageId = None\<close>, and the handler's
  effects end with the two calls of the \<^verbatim>\<open>finally\<close> block, each of which occurs exactly
  once among them.
\<close>

theorem cleanup_runs_once:
  "accepted prompt s \<Longrightarrow>
   isLoading (handleSendMessage prompt clk s) = False
   \<and> activeAiMessageId (handleSendMessage prompt clk s) = None
   \<and> (\<exists>body. handleSendMessage_effects prompt clk s = body @ finally_effects
         \<and> SetIsLoading False \<notin> set body \<and> SetActiveAiMessageId None \<notin> set body)
   \<and> count_list (handleSendMessage_effects prompt clk s) (SetIsLoading False) = 1
   \<and> count_list (handleSendMessage_effects prompt clk s) (SetActiveAiMessageId None) = 1"
proof -
  assume a: "accepted prompt s"
  then obtain session where ss: "chatSession s = Some session"
    using accepted_session by blast
  define body where "body = accept_effects prompt clk @ SendMessageStream prompt
       # exchange_effects (newAiMessageId clk) (session prompt)"
  have e: "handleSendMessage_effects prompt clk s = body @ finally_effects"
    using accepted_effects [OF a ss] by (simp add: body_def)
  have b1: "SetIsLoading False \<notin> set body"
    by (simp add: body_def accept_effects_def exchange_no_cleanup)
  have b2: "SetActiveAiMessageId None \<notin> set body"
    by (simp add: body_def accept_effects_def exchange_no_cleanup)
  have "count_list body (SetIsLoading False) = 0"
    using b1 by (simp add: count_list_0_iff)
  then have c1: "count_list (body @ finally_effects) (SetIsLoading False) = 1"
    by (simp add: finally_effects_def)
  have "count_list body (SetActiveAiMessageId None) = 0"
    using b2 by (simp add: count_list_0_iff)
  then have c2: "count_list (body @ finally_effects) (SetActiveAiMessageId None) = 1"
    by (simp add: finally_effects_def)
  have f: "isLoading (handleSendMessage prompt clk s) = False
     \<and> activeAiMessageId (handleSendMessage prompt clk s) = None"
    by (simp add: handleSendMessage_def e run_append run_finally)
  show ?thesis
    using e b1 b2 c1 c2 f by auto
qed

theorem cleanup_runs_once_witness:
  "isLoading (handleSendMessage (js ''Hello'') (clock_at 2000) (ready_state failing_session)) = False
   \<and> activeAiMessageId (handleSendMessage (js ''Hello'') (clock_at 2000) (ready_state offline_session))
       = None
   \<and> count_list (handleSendMessage_effects (js ''Hello'') (clock_at 2000) (ready_state greeting_session))
       (SetIsLoading False) = 1"
proof -
  have a: "accepted (js ''Hello'') (ready_state session)" for session
    by (simp add: accepted_ready trim_examples_nonempty)
  show ?thesis
    using a
      cleanup_runs_once [of "js ''Hello''" "ready_state failing_session" "clock_at 2000"]
      cleanup_runs_once [of "js ''Hello''" "ready_state offline_session" "clock_at 2000"]
      cleanup_runs_once [of "js ''Hello''" "ready_state greeting_session" "clock_at 2000"]
    by simp
qed

section \<open>The argument of the stream call\<close>

text \<open>
  Claim C6, as the code has it. An accepted \<open>handleSendMessage prompt\<close> calls
  \<^verbatim>\<open>sendMessageStream\<close> once, with the prompt exactly as it received it: the handler trims
  only in its guard. Its caller in \<^verbatim>\<open>ChatInput\<close> passes \<^verbatim>\<open>message.trim()\<close>, so a send
  made through the input box opens the stream with the trimmed input.
\<close>

theorem stream_opened_with_received_prompt:
  "(accepted prompt s \<longrightarrow>
      (\<forall>m. SendMessageStream m \<in> set (handleSendMessage_effects prompt clk s) \<longleftrightarrow> m = prompt)
      \<and> count_list (handleSendMessage_effects prompt clk s) (SendMessageStream prompt) = 1)
   \<and> (accepted message s \<longrightarrow>
      (\<forall>m. SendMessageStream m \<in> set (handleSend_effects message clk s) \<longleftrightarrow> m = trim message))"
proof -
  have "SendMessageStream m \<in> set (handleSend_effects message clk s) \<longleftrightarrow> m = trim message"
    if a: "accepted message s" for m
  proof -
    have "accepted (trim message) s"
      using a by (simp add: accepted_def trim_idem)
    then show ?thesis
      using a by (simp add: handleSend_effects_def accepted_def stream_call_argument)
  qed
  then show ?thesis
    by (simp add: stream_call_argument stream_call_count)
qed

theorem stream_opened_with_received_prompt_witness:
  "SendMessageStream (js ''hi'')
     \<in> set (handleSend_effects (js '' hi '') (clock_at 2000) (ready_state echo_session))
   \<and> SendMessageStream (js ''X'')
     \<in> set (handleSendMessage_effects (js ''X'') (clock_at 2000) (ready_state echo_session))"
proof -
  have a: "accepted (js '' hi '') (ready_state echo_session)"
    "accepted (js ''X'') (ready_state echo_session)"
    by (simp_all add: accepted_ready trim_examples_nonempty)
  show ?thesis
    using a
      stream_opened_with_received_prompt
        [of "js ''X''" "ready_state echo_session" "clock_at 2000" "js '' hi ''"]
    by (simp add: trim_examples)
qed

text \<open>
  Claim C6, as the spec states it, fails: for the prompt \<^verbatim>\<open>" hi "\<close> the send is accepted
  and the stream is opened with \<^verbatim>\<open>" hi "\<close>, not with \<^verbatim>\<open>"hi"\<close>.
\<close>

theorem stream_not_opened_with_trimmed_prompt:
  "accepted (js '' hi '') (ready_state echo_session)
   \<and> SendMessageStream (trim (js '' hi ''))
       \<notin> set (handleSendMessage_effects (js '' hi '') (clock_at 2000) (ready_state echo_session))
   \<and> SendMessageStream (js '' hi '')
       \<in> set (handleSendMessage_effects (js '' hi '') (clock_at 2000) (ready_state echo_session))"
proof -
  have a: "accepted (js '' hi '') (ready_state echo_session)"
    by (simp add: accepted_ready trim_examples_nonempty)
  have "trim (js '' hi '') \<noteq> js '' hi ''"
    by (simp add: trim_examples) (simp add: js_def)
  then show ?thesis
    using a by (simp add: stream_call_argument)
qed

section \<open>The standing error\<close>

text \<open>
  Claim C10. When the stream call of an accepted send opens, the error state is
  \<open>None\<close> before the first fragment and stays so while fragments arrive; it ends as
  \<open>None\<close> if the stream completes and as the new error string if it throws. A rejected
  send leaves the error state as it was. When the stream call itself is rejected, the
  error state is still the earlier one when the \<^verbatim>\<open>catch\<close> block starts, and the new
  error string after it.
\<close>

theorem error_cleared_when_stream_opens:
  "(accepted prompt s \<and> chatSession s = Some session \<and> session prompt = Stream cs fin
      \<and> k \<le> length cs \<longrightarrow>
      prefix (opened_effects prompt clk) (streaming_effects prompt clk (take k cs))
      \<and> prefix (streaming_effects prompt clk (take k cs)) (handleSendMessage_effects prompt clk s)
      \<and> error (run (opened_effects prompt clk) s) = None
      \<and> error (run (streaming_effects prompt clk (take k cs)) s) = None
      \<and> error (handleSendMessage prompt clk s)
          = (case fin of Completed \<Rightarrow> None | Throws e \<Rightarrow> Some (errorMessage e)))
   \<and> (rejected prompt s \<longrightarrow> error (handleSendMessage prompt clk s) = error s)
   \<and> (accepted prompt s \<and> chatSession s = Some session \<and> session prompt = Rejected e \<longrightarrow>
      handleSendMessage_effects prompt clk s
        = (accept_effects prompt clk @ [SendMessageStream prompt])
          @ catch_effects (newAiMessageId clk) e @ finally_effects
      \<and> error (run (accept_effects prompt clk @ [SendMessageStream prompt]) s) = error s
      \<and> error (handleSendMessage prompt clk s) = Some (errorMessage e))"
proof -
  have 1: "prefix (opened_effects prompt clk) (streaming_effects prompt clk (take k cs))"
    by (simp add: streaming_effects_def)
  have 2: "prefix (streaming_effects prompt clk (take k cs)) (handleSendMessage_effects prompt clk s)"
    if "accepted prompt s" "chatSession s = Some session" "session prompt = Stream cs fin"
    using accepted_streaming_prefix [OF that, of clk k] by (simp add: prefix_def)
  have 3: "error (handleSendMessage prompt clk s)
          = (case fin of Completed \<Rightarrow> None | Throws e \<Rightarrow> Some (errorMessage e))"
    if "accepted prompt s" "chatSession s = Some session" "session prompt = Stream cs fin"
    using that
    by (cases fin)
      (simp_all add: handleSendMessage_def accepted_effects run_append run_Cons run_accept
        run_finally run_catch run_Nil error_run_stream_loop)
  have 4: "error (handleSendMessage prompt clk s) = error s" if "rejected prompt s"
    using that by (simp add: handleSendMessage_def rejected_no_effects run_Nil)
  have 5: "handleSendMessage_effects prompt clk s
        = (accept_effects prompt clk @ [SendMessageStream prompt])
          @ catch_effects (newAiMessageId clk) e @ finally_effects
      \<and> error (run (accept_effects prompt clk @ [SendMessageStream prompt]) s) = error s
      \<and> error (handleSendMessage prompt clk s) = Some (errorMessage e)"
    if "accepted prompt s" "chatSession s = Some session" "session prompt = Rejected e"
    using that
    by (simp add: handleSendMessage_def accepted_effects run_append run_Cons run_accept
        run_finally run_catch run_Nil)
  show ?thesis
    using 1 2 3 4 5 by (simp add: error_streaming run_opened)
qed

theorem error_cleared_when_stream_opens_witness:
  "error (run (opened_effects (js ''Hello'') (clock_at 2000))
       ((ready_state greeting_session)\<lparr>error := Some (js ''old'')\<rparr>)) = None
   \<and> error (handleSendMessage (js ''Hello'') (clock_at 2000)
       ((ready_state greeting_session)\<lparr>error := Some (js ''old'')\<rparr>)) = None
   \<and> error (handleSendMessage (js ''  '') (clock_at 2000)
       ((ready_state greeting_session)\<lparr>error := Some (js ''old'')\<rparr>)) = Some (js ''old'')
   \<and> error (run (accept_effects (js ''Hello'') (clock_at 2000) @ [SendMessageStream (js ''Hello'')])
       ((ready_state offline_session)\<lparr>error := Some (js ''old'')\<rparr>)) = Some (js ''old'')
   \<and> error (handleSendMessage (js ''Hello'') (clock_at 2000)
       ((ready_state offline_session)\<lparr>error := Some (js ''old'')\<rparr>))
     = Some (js ''Sorry, I encountered an error: Unknown API error'')"
proof -
  let ?g = "(ready_state greeting_session)\<lparr>error := Some (js ''old'')\<rparr>"
  let ?o = "(ready_state offline_session)\<lparr>error := Some (js ''old'')\<rparr>"
  have a: "accepted (js ''Hello'') ?g" "accepted (js ''Hello'') ?o" "rejected (js ''  '') ?g"
    by (simp_all add: accepted_def rejected_def ready_state_def trim_examples(3)
        trim_examples_nonempty)
  have b: "chatSession ?g = Some greeting_session" "chatSession ?o = Some offline_session"
    by (simp_all add: ready_state_def)
  have c: "greeting_session (js ''Hello'')
       = Stream [Some (js ''Hi''), Some [], Some (js '' there''), Some (js ''!'')] Completed"
    "offline_session (js ''Hello'') = Rejected (JsError None)"
    by (simp_all add: greeting_session_def offline_session_def)
  have d: "errorMessage (JsError None) = js ''Sorry, I encountered an error: Unknown API error''"
    by (simp add: js_def)
  show ?thesis
    using a b c d
      error_cleared_when_stream_opens [of "js ''Hello''" ?g greeting_session
        "[Some (js ''Hi''), Some [], Some (js '' there''), Some (js ''!'')]" Completed 0 "clock_at 2000"]
      error_cleared_when_stream_opens [of "js ''  ''" ?g greeting_session "[]" Completed 0 "clock_at 2000"]
      error_cleared_when_stream_opens [of "js ''Hello''" ?o offline_session "[]" Completed 0
        "clock_at 2000" "JsError None"]
    by simp
qed

section \<open>Updates that find no record\<close>

text \<open>
  Both updaters leave a transcript that holds no record with the given id as it is,
  and neither ever changes the number of records. So when \<open>handleNewChat\<close> replaces the
  transcript after the first \<open>k\<close> fragments of an exchange, and the welcome record's
  id is not the id of that exchange's placeholder, everything the exchange still does
  leaves the transcript the single welcome record. In every case the transcript keeps
  exactly one record.
\<close>

lemma updates_of_absent_id:
  "(i \<notin> set (ids msgs) \<longrightarrow> replaceText i t msgs = msgs \<and> replaceTextRole i t r msgs = msgs)
   \<and> length (replaceText i t msgs) = length msgs
   \<and> length (replaceTextRole i t r msgs) = length msgs
   \<and> (accepted prompt s \<and> chatSession s = Some session \<and> session prompt = Stream cs fin
        \<and> k \<le> length cs \<and> newAiMessageId clk \<noteq> now \<longrightarrow>
      handleSendMessage_effects prompt clk s
        = streaming_effects prompt clk (take k cs) @ remaining_effects clk cs fin k
      \<and> messages (run (remaining_effects clk cs fin k)
            (handleNewChat now date (run (streaming_effects prompt clk (take k cs)) s)))
          = [welcomeMessage now date])
   \<and> length (messages (run (remaining_effects clk cs fin k) (handleNewChat now date s'))) = 1"
proof -
  have 1: "messages (run (remaining_effects clk cs fin k)
            (handleNewChat now date (run (streaming_effects prompt clk (take k cs)) s)))
          = [welcomeMessage now date]"
    if n: "newAiMessageId clk \<noteq> now"
  proof -
    let ?mid = "handleNewChat now date (run (streaming_effects prompt clk (take k cs)) s)"
    have "newAiMessageId clk \<notin> set (ids (messages ?mid))"
      using n by (simp add: messages_handleNewChat ids_def welcomeMessage_def)
    then have "messages (run (remaining_effects clk cs fin k) ?mid) = messages ?mid"
      by (rule messages_remaining_effects)
    then show ?thesis
      by (simp add: messages_handleNewChat)
  qed
  have 2: "length (messages (run (remaining_effects clk cs fin k) (handleNewChat now date s'))) = 1"
    by (simp add: length_remaining_effects messages_handleNewChat)
  show ?thesis
    using 1 2 accepted_streaming_prefix [of prompt s session cs fin clk k]
    by (simp add: replaceText_absent replaceTextRole_absent length_replaceText
        length_replaceTextRole)
qed

text \<open>
  Claim C8 does not hold of the code. An update for an id that no record carries is
  dropped (\<open>updates_of_absent_id\<close>), but the welcome record of \<open>handleNewChat\<close> takes
  its id from \<^verbatim>\<open>Date.now()\<close>, and the placeholder of a send at reading \<open>t\<close> has the id
  \<open>t + 1\<close>: a new chat one millisecond after the send gives the welcome record the id
  the exchange still writes to. Here the send reads 2000 and \<open>handleNewChat\<close> reads 2001
  after the first fragment: the exchange's remaining updates are not dropped, they
  replace the welcome text by the streamed answer.
\<close>

theorem late_update_overwrites_welcome_record:
  "accepted (js ''Hello'') (ready_state greeting_session)
   \<and> handleSendMessage_effects (js ''Hello'') (clock_at 2000) (ready_state greeting_session)
       = streaming_effects (js ''Hello'') (clock_at 2000)
           (take 1 [Some (js ''Hi''), Some [], Some (js '' there''), Some (js ''!'')])
         @ remaining_effects (clock_at 2000)
           [Some (js ''Hi''), Some [], Some (js '' there''), Some (js ''!'')] Completed 1
   \<and> messages (handleNewChat 2001 2001 (run (streaming_effects (js ''Hello'') (clock_at 2000)
            (take 1 [Some (js ''Hi''), Some [], Some (js '' there''), Some (js ''!'')]))
            (ready_state greeting_session)))
       = [welcomeMessage 2001 2001]
   \<and> messages (run (remaining_effects (clock_at 2000)
         [Some (js ''Hi''), Some [], Some (js '' there''), Some (js ''!'')] Completed 1)
         (handleNewChat 2001 2001 (run (streaming_effects (js ''Hello'') (clock_at 2000)
            (take 1 [Some (js ''Hi''), Some [], Some (js '' there''), Some (js ''!'')]))
            (ready_state greeting_session))))
       = [\<lparr>msg_id = 2001, msg_role = AI, msg_text = js ''Hi there!'', msg_timestamp = 2001\<rparr>]"
proof -
  let ?cs = "[Some (js ''Hi''), Some [], Some (js '' there''), Some (js ''!'')]"
  let ?mid = "handleNewChat 2001 2001
     (run (streaming_effects (js ''Hello'') (clock_at 2000) (take 1 ?cs)) (ready_state greeting_session))"
  have a: "accepted (js ''Hello'') (ready_state greeting_session)"
    by (simp add: accepted_ready trim_examples_nonempty)
  have b: "chatSession (ready_state greeting_session) = Some greeting_session"
    by (simp add: ready_state_def)
  have c: "greeting_session (js ''Hello'') = Stream ?cs Completed"
    by (simp add: greeting_session_def)
  have e: "handleSendMessage_effects (js ''Hello'') (clock_at 2000) (ready_state greeting_session)
       = streaming_effects (js ''Hello'') (clock_at 2000) (take 1 ?cs)
         @ remaining_effects (clock_at 2000) ?cs Completed 1"
    using a b c by (rule accepted_streaming_prefix)
  have m: "messages ?mid = [welcomeMessage 2001 2001]"
    by (rule messages_handleNewChat)
  have "messages (run (remaining_effects (clock_at 2000) ?cs Completed 1) s0)
       = [\<lparr>msg_id = 2001, msg_role = AI, msg_text = js ''Hi there!'', msg_timestamp = 2001\<rparr>]"
    if "messages s0 = [welcomeMessage 2001 2001]" for s0
    using that
    by (simp add: remaining_effects_def run_append run_Cons run_Nil finally_effects_def
        newAiMessageId_def clock_at_def welcomeMessage_def replaceText_def fragments_def js_def)
  from this [OF m]
  have r: "messages (run (remaining_effects (clock_at 2000) ?cs Completed 1) ?mid)
       = [\<lparr>msg_id = 2001, msg_role = AI, msg_text = js ''Hi there!'', msg_timestamp = 2001\<rparr>]" .
  show ?thesis
    using a e m r by simp
qed

section \<open>Identifiers read from the clock\<close>

text \<open>
  Claim C7 does not hold of the code. The ids are \<^verbatim>\<open>Date.now()\<close> and \<^verbatim>\<open>Date.now() + 1\<close>,
  so a send one millisecond after the previous one gives its user record the id of the
  previous placeholder. Here the start-up is at reading 1000, the first send at 2000
  (its stream call is rejected at once) and the second at 2001: the transcript before
  the second send has distinct ids, the second send is accepted, and afterwards the id
  2001 occurs twice.
\<close>

theorem send_can_duplicate_an_id:
  "distinct (ids (messages
      (handleSendMessage (js ''one'') (clock_at 2000) (ready_state offline_session))))
   \<and> accepted (js ''two'')
      (handleSendMessage (js ''one'') (clock_at 2000) (ready_state offline_session))
   \<and> ids (messages (handleSendMessage (js ''two'') (clock_at 2001)
         (handleSendMessage (js ''one'') (clock_at 2000) (ready_state offline_session))))
      = [1000, 2000, 2001, 2001, 2002]"
  by (simp add: eval_defs offline_session_def accepted_def trim_def isWhiteSpace_def js_def)

text \<open>
  Claim C9 does not hold of the code. When two sends read the same clock value, the
  second placeholder has the id of the first, and the updaters of the second exchange,
  which match by id, rewrite the first as well. Here both sends read 2000 and the
  session echoes the prompt: the record at position 2, the answer \<^verbatim>\<open>"one"\<close> of the first
  exchange, existed before the second send and carries \<^verbatim>\<open>"two"\<close> after it.
\<close>

theorem stream_overwrites_colliding_record:
  "accepted (js ''two'')
      (handleSendMessage (js ''one'') (clock_at 2000) (ready_state echo_session))
   \<and> msg_text (messages
        (handleSendMessage (js ''one'') (clock_at 2000) (ready_state echo_session)) ! 2)
      = js ''one''
   \<and> msg_text (messages (handleSendMessage (js ''two'') (clock_at 2000)
         (handleSendMessage (js ''one'') (clock_at 2000) (ready_state echo_session))) ! 2)
      = js ''two''"
  by (simp add: eval_defs echo_session_def accepted_def trim_def isWhiteSpace_def js_def)

text \<open>
  Claim C5 does not hold of the code, for the same reason. The placeholder of a failed
  exchange does end with the error string, the number of records does not change and
  the next send is accepted (\<open>failed_exchange_placeholder\<close>, \<open>length_handleSendMessage\<close>);
  but the \<^verbatim>\<open>catch\<close> block writes the error string into every record with the
  placeholder's id. Here both sends read 2000 and both streams fail: the record at
  position 2, which held the error string of the first exchange before the second
  send, holds that of the second after it.
\<close>

theorem error_overwrites_colliding_record:
  "accepted (js ''two'')
      (handleSendMessage (js ''one'') (clock_at 2000) (ready_state moody_session))
   \<and> msg_text (messages
        (handleSendMessage (js ''one'') (clock_at 2000) (ready_state moody_session)) ! 2)
      = js ''Sorry, I encountered an error: one''
   \<and> msg_text (messages (handleSendMessage (js ''two'') (clock_at 2000)
         (handleSendMessage (js ''one'') (clock_at 2000) (ready_state moody_session))) ! 2)
      = js ''Sorry, I encountered an error: two''"
  by (simp add: eval_defs moody_session_def accepted_def trim_def isWhiteSpace_def js_def)

end
